theory Spec2Isabelle
  imports Complex_Main "HOL-Library.Sublist" "HOL-Library.AList"
begin

section \<open>Python values, truthiness and exceptions\<close>

text \<open>
  The two gateways (\<^verbatim>\<open>app/providers/openrouter_openai.py\<close> and
  \<^verbatim>\<open>app/embeddings/providers.py\<close>) work on loosely structured, JSON-like Python
  values. A dictionary is an association list with string keys (Python dictionaries keep
  insertion order, which \<^verbatim>\<open>str\<close> shows); lookups go through \<open>map_of\<close>. Floats are
  carried as reals: the code only stores, forwards and tests them for zero.
\<close>

datatype pyval =
    PNone
  | PBool bool
  | PInt int
  | PFloat real
  | PStr string
  | PList "pyval list"
  | PDict "(string \<times> pyval) list"
  | PClient pyval pyval

text \<open>
  \<open>PClient base_url api_key\<close> is the SDK client object \<^verbatim>\<open>OpenAI(base_url=..., api_key=...)\<close>,
  kept as the two arguments it was built from. It is an opaque object for every operation
  below: truthy, no \<^verbatim>\<open>get\<close>, not a container.
\<close>

type_synonym pydict = "(string \<times> pyval) list"

text \<open>Python's truth value testing, as \<^verbatim>\<open>if x\<close>, \<^verbatim>\<open>x or y\<close> and \<^verbatim>\<open>not x\<close> use it.\<close>

fun truthy :: "pyval \<Rightarrow> bool" where
  "truthy PNone = False"
| "truthy (PBool b) = b"
| "truthy (PInt i) = (i \<noteq> 0)"
| "truthy (PFloat r) = (r \<noteq> 0)"
| "truthy (PStr s) = (s \<noteq> [])"
| "truthy (PList xs) = (xs \<noteq> [])"
| "truthy (PDict d) = (d \<noteq> [])"
| "truthy (PClient b k) = True"

fun type_name :: "pyval \<Rightarrow> string" where
  "type_name PNone = ''NoneType''"
| "type_name (PBool b) = ''bool''"
| "type_name (PInt i) = ''int''"
| "type_name (PFloat r) = ''float''"
| "type_name (PStr s) = ''str''"
| "type_name (PList xs) = ''list''"
| "type_name (PDict d) = ''dict''"
| "type_name (PClient b k) = ''OpenAI''"

fun is_dict :: "pyval \<Rightarrow> bool" where
  "is_dict (PDict d) = True"
| "is_dict v = False"

text \<open>
  Exceptions are values: a class and the text \<^verbatim>\<open>str(e)\<close> gives. The first six classes
  are the provider SDK's \<^verbatim>\<open>APIError\<close> family: \<^verbatim>\<open>RateLimitError\<close>,
  \<^verbatim>\<open>APITimeoutError\<close>, \<^verbatim>\<open>InternalServerError\<close> and \<^verbatim>\<open>AuthenticationError\<close> derive
  from \<^verbatim>\<open>APIError\<close>, and \<open>OtherAPIError\<close> is any further class deriving from it
  (\<^verbatim>\<open>APIConnectionError\<close>, \<^verbatim>\<open>BadRequestError\<close>, ...), with its class name.
  \<open>ProviderError\<close> and \<open>EmbeddingError\<close> are the two classes the gateways declare;
  \<open>OtherException\<close> is any further subclass of \<^verbatim>\<open>Exception\<close> that does not derive from
  \<^verbatim>\<open>APIError\<close>, with its class name.
\<close>

datatype exn_class =
    APIError
  | RateLimitError
  | APITimeoutError
  | InternalServerError
  | AuthenticationError
  | OtherAPIError string
  | NameError
  | TypeError
  | AttributeError
  | KeyError
  | IndexError
  | ProviderError
  | EmbeddingError
  | OtherException string

datatype exn = Exn (exn_cls: exn_class) (exn_msg: string)

text \<open>
  The first handler of both gateways:
  \<^verbatim>\<open>except (APIError, RateLimitError, APITimeoutError, InternalServerError)\<close>.
  It matches instances of the listed classes and of their subclasses.
\<close>

fun is_api_error :: "exn_class \<Rightarrow> bool" where
  "is_api_error APIError = True"
| "is_api_error RateLimitError = True"
| "is_api_error APITimeoutError = True"
| "is_api_error InternalServerError = True"
| "is_api_error AuthenticationError = True"
| "is_api_error (OtherAPIError name) = True"
| "is_api_error c = False"

definition quoted :: "string \<Rightarrow> string" where
  "quoted s = [CHR 0x27] @ s @ [CHR 0x27]"

definition no_attribute :: "pyval \<Rightarrow> string \<Rightarrow> exn" where
  "no_attribute v a =
     Exn AttributeError (quoted (type_name v) @ '' object has no attribute '' @ quoted a)"

text \<open>\<^verbatim>\<open>d.get(k, default)\<close> on a dictionary.\<close>

definition dict_get :: "pydict \<Rightarrow> string \<Rightarrow> pyval \<Rightarrow> pyval" where
  "dict_get d k dflt = (case map_of d k of None \<Rightarrow> dflt | Some v \<Rightarrow> v)"

text \<open>\<^verbatim>\<open>v.get(k, default)\<close> on any value: only a dictionary has the method.\<close>

fun py_get :: "pyval \<Rightarrow> string \<Rightarrow> pyval \<Rightarrow> exn + pyval" where
  "py_get (PDict d) k dflt = Inr (dict_get d k dflt)"
| "py_get v k dflt = Inl (no_attribute v ''get'')"

section \<open>The embedding gateway: module initialisation\<close>

text \<open>
  A module's global namespace maps a name to the value it is bound to; reading a name
  that is not bound raises \<^verbatim>\<open>NameError\<close>.
\<close>

type_synonym namespace = "string \<Rightarrow> pyval option"

type_synonym environ = "string \<Rightarrow> string option"

definition load_name :: "namespace \<Rightarrow> string \<Rightarrow> exn + pyval" where
  "load_name g n =
     (case g n of
        None \<Rightarrow> Inl (Exn NameError (''name '' @ quoted n @ '' is not defined''))
      | Some v \<Rightarrow> Inr v)"

text \<open>\<^verbatim>\<open>os.getenv(name)\<close> and \<^verbatim>\<open>os.getenv(name, default)\<close>.\<close>

definition getenv :: "environ \<Rightarrow> string \<Rightarrow> pyval" where
  "getenv env n = (case env n of None \<Rightarrow> PNone | Some s \<Rightarrow> PStr s)"

definition getenv_default :: "environ \<Rightarrow> string \<Rightarrow> string \<Rightarrow> pyval" where
  "getenv_default env n dflt = (case env n of None \<Rightarrow> PStr dflt | Some s \<Rightarrow> PStr s)"

text \<open>\<^verbatim>\<open>a or b\<close> on two values already computed.\<close>

definition py_or :: "pyval \<Rightarrow> pyval \<Rightarrow> pyval" where
  "py_or a b = (if truthy a then a else b)"

text \<open>
  The top level of \<^verbatim>\<open>app/embeddings/providers.py\<close>, run once at import, on the process
  environment as \<^verbatim>\<open>load_dotenv()\<close> has left it:
  \<^verbatim>\<open>
  OPENROUTER_API_KEY = os.getenv("OPENROUTER_API_KEY")
  EMBED_MODEL = os.getenv("EMBED_MODEL", "text-embedding-3-small")
  if OPENROUTER_API_KEY:
      BASE_URL = "https://openrouter.ai/api/v1"
      API_KEY = OPENROUTER_API_KEY
  _client = OpenAI(base_url=BASE_URL or "https://openrouter.ai/api/v1", api_key=API_KEY)
  \<close>
  \<^verbatim>\<open>BASE_URL\<close> and \<^verbatim>\<open>API_KEY\<close> are bound only inside the \<^verbatim>\<open>if\<close>. The result is the
  namespace the module's functions run in, or the exception the import dies with. The
  SDK constructor is reached only with an explicit non-empty key and does no I/O.
\<close>

definition embeddings_module_init :: "environ \<Rightarrow> exn + namespace" where
  "embeddings_module_init env =
     (let key = getenv env ''OPENROUTER_API_KEY'';
          g1 = (Map.empty(''OPENROUTER_API_KEY'' \<mapsto> key))
                 (''EMBED_MODEL'' \<mapsto> getenv_default env ''EMBED_MODEL'' ''text-embedding-3-small'');
          g2 = (if truthy key
                then (g1(''BASE_URL'' \<mapsto> PStr ''https://openrouter.ai/api/v1''))
                       (''API_KEY'' \<mapsto> key)
                else g1)
      in case load_name g2 ''BASE_URL'' of
           Inl e \<Rightarrow> Inl e
         | Inr base \<Rightarrow>
             (case load_name g2 ''API_KEY'' of
                Inl e \<Rightarrow> Inl e
              | Inr k \<Rightarrow>
                  Inr (g2(''_client'' \<mapsto>
                        PClient (py_or base (PStr ''https://openrouter.ai/api/v1'')) k))))"

section \<open>The embedding gateway: \<^verbatim>\<open>embed_texts\<close>\<close>

text \<open>
  The keyword arguments of \<^verbatim>\<open>_client.embeddings.create(model=, input=, timeout=)\<close>: one
  value of this type is one outbound request.
\<close>

record embed_request =
  emb_model :: pyval
  emb_input :: "string list"
  emb_timeout :: pyval

datatype log_level = ERROR | WARNING

datatype log_arg = ArgInt int | ArgExn exn

text \<open>A call of \<^verbatim>\<open>logger.exception(fmt, e)\<close> or \<^verbatim>\<open>logger.warning(fmt, a, b)\<close>.\<close>

datatype log_record = Log log_level string "log_arg list"

text \<open>
  What one call of \<^verbatim>\<open>embed_texts\<close> does: the requests it issued, what it logged, and
  the list it returned or the exception it raised.
\<close>

record embed_run =
  sent :: "embed_request list"
  logged :: "log_record list"
  outcome :: "exn + pyval list"

text \<open>\<^verbatim>\<open>for item in v\<close>: the items a \<^verbatim>\<open>for\<close> loop visits.\<close>

fun py_iter :: "pyval \<Rightarrow> exn + pyval list" where
  "py_iter (PList xs) = Inr xs"
| "py_iter (PStr s) = Inr (map (\<lambda>c. PStr [c]) s)"
| "py_iter (PDict d) = Inr (map (\<lambda>kv. PStr (fst kv)) d)"
| "py_iter v = Inl (Exn TypeError (quoted (type_name v) @ '' object is not iterable''))"

text \<open>
  The body of the loop over \<^verbatim>\<open>data\<close>:
  \<^verbatim>\<open>
  vec = item.get("embedding") or item.get("vector") or item.get("embedding_vector") or []
  if not vec and "values" in item:
      vec = item.get("values")
  \<close>
  There is no test that \<^verbatim>\<open>item\<close> is a dictionary: \<^verbatim>\<open>item.get\<close> raises on anything else.
\<close>

fun item_vector :: "pyval \<Rightarrow> exn + pyval" where
  "item_vector (PDict d) =
     (let vec = py_or (py_or (py_or (dict_get d ''embedding'' PNone) (dict_get d ''vector'' PNone))
                             (dict_get d ''embedding_vector'' PNone))
                      (PList [])
      in Inr (if \<not> truthy vec \<and> map_of d ''values'' \<noteq> None
              then dict_get d ''values'' PNone else vec))"
| "item_vector item = Inl (no_attribute item ''get'')"

text \<open>The loop itself; \<open>vectors\<close> is the list built so far (\<^verbatim>\<open>vectors.append(vec)\<close>).\<close>

fun collect_vectors :: "pyval list \<Rightarrow> pyval list \<Rightarrow> exn + pyval list" where
  "collect_vectors [] vectors = Inr vectors"
| "collect_vectors (item # rest) vectors =
     (case item_vector item of
        Inl e \<Rightarrow> Inl e
      | Inr vec \<Rightarrow> collect_vectors rest (vectors @ [vec]))"

text \<open>\<^verbatim>\<open>model = model or EMBED_MODEL\<close>: the global is read only when \<^verbatim>\<open>model\<close> is falsy.\<close>

definition embed_model :: "namespace \<Rightarrow> string option \<Rightarrow> exn + pyval" where
  "embed_model g model =
     (case model of
        None \<Rightarrow> load_name g ''EMBED_MODEL''
      | Some m \<Rightarrow> if m \<noteq> [] then Inr (PStr m) else load_name g ''EMBED_MODEL'')"

text \<open>
  The statement inside \<^verbatim>\<open>try\<close>:
  \<^verbatim>\<open>resp = _client.embeddings.create(model=model, input=texts, timeout=DEFAULT_TIMEOUT)\<close>.
  Python evaluates the callee, then the arguments left to right, then calls; \<open>create\<close> is
  the SDK call with the network behind it, returning the response as \<^verbatim>\<open>to_dict()\<close> gives
  it. The first component is the list of requests issued.
\<close>

definition embeddings_create ::
  "namespace \<Rightarrow> (embed_request \<Rightarrow> exn + pydict) \<Rightarrow> pyval \<Rightarrow> string list
     \<Rightarrow> embed_request list \<times> (exn + pydict)" where
  "embeddings_create g create model texts =
     (case load_name g ''_client'' of
        Inl e \<Rightarrow> ([], Inl e)
      | Inr (PClient b k) \<Rightarrow>
          (case load_name g ''DEFAULT_TIMEOUT'' of
             Inl e \<Rightarrow> ([], Inl e)
           | Inr t \<Rightarrow>
               (let rq = \<lparr>emb_model = model, emb_input = texts, emb_timeout = t\<rparr>
                in ([rq], create rq)))
      | Inr c \<Rightarrow> ([], Inl (no_attribute c ''embeddings'')))"

text \<open>The two \<^verbatim>\<open>except\<close> clauses around that statement.\<close>

definition embedding_error_of :: "exn \<Rightarrow> exn" where
  "embedding_error_of e =
     (if is_api_error (exn_cls e) then Exn EmbeddingError (exn_msg e)
      else Exn EmbeddingError (''unexpected embedding error: '' @ exn_msg e))"

definition embedding_error_log :: "exn \<Rightarrow> log_record" where
  "embedding_error_log e =
     (if is_api_error (exn_cls e) then Log ERROR ''OpenAI embeddings API error: %s'' [ArgExn e]
      else Log ERROR ''Unexpected embeddings error: %s'' [ArgExn e])"

text \<open>What follows the \<^verbatim>\<open>try\<close> statement: extraction, the count check, the return.\<close>

definition embed_vectors :: "embed_request list \<Rightarrow> string list \<Rightarrow> pydict \<Rightarrow> embed_run" where
  "embed_vectors rqs texts raw =
     (case py_iter (dict_get raw ''data'' (PList [])) of
        Inl e \<Rightarrow> \<lparr>sent = rqs, logged = [], outcome = Inl e\<rparr>
      | Inr data \<Rightarrow>
          (case collect_vectors data [] of
             Inl e \<Rightarrow> \<lparr>sent = rqs, logged = [], outcome = Inl e\<rparr>
           | Inr vectors \<Rightarrow>
               \<lparr>sent = rqs,
                logged = (if length vectors \<noteq> length texts
                          then [Log WARNING ''Returned embeddings count (%d) != input count (%d)''
                                  [ArgInt (int (length vectors)), ArgInt (int (length texts))]]
                          else []),
                outcome = Inr vectors\<rparr>))"

definition embed_texts ::
  "namespace \<Rightarrow> (embed_request \<Rightarrow> exn + pydict) \<Rightarrow> string list \<Rightarrow> string option
     \<Rightarrow> embed_run" where
  "embed_texts g create texts model =
     (case embed_model g model of
        Inl e \<Rightarrow> \<lparr>sent = [], logged = [], outcome = Inl e\<rparr>
      | Inr m \<Rightarrow>
          (case load_name g ''OPENROUTER_API_KEY'' of
             Inl e \<Rightarrow> \<lparr>sent = [], logged = [], outcome = Inl e\<rparr>
           | Inr key \<Rightarrow>
               if \<not> truthy key
               then \<lparr>sent = [], logged = [],
                     outcome = Inl (Exn EmbeddingError ''OPENROUTER_API_KEY not set in env'')\<rparr>
               else if texts = [] then \<lparr>sent = [], logged = [], outcome = Inr []\<rparr>
               else
                 (case embeddings_create g create m texts of
                    (rqs, Inl e) \<Rightarrow>
                      \<lparr>sent = rqs, logged = [embedding_error_log e],
                       outcome = Inl (embedding_error_of e)\<rparr>
                  | (rqs, Inr raw) \<Rightarrow> embed_vectors rqs texts raw)))"

section \<open>The chat completion gateway: \<^verbatim>\<open>call_chat_completions\<close>\<close>

text \<open>
  The keyword arguments of \<^verbatim>\<open>_client.chat.completions.create(...)\<close>: one value of this
  type is one outbound request.
\<close>

record chat_request =
  rq_model :: string
  rq_messages :: "pyval list"
  rq_max_tokens :: pyval
  rq_temperature :: pyval
  rq_extra_headers :: "(string \<times> string) list"
  rq_extra_body :: pydict
  rq_timeout :: int

text \<open>The dictionary \<^verbatim>\<open>{"text": ..., "usage": ..., "latency_ms": ..., "raw": ...}\<close> returned.\<close>

record completion_result =
  res_text :: pyval
  res_usage :: pyval
  res_latency_ms :: int
  res_raw :: pydict

record chat_run =
  requests :: "chat_request list"
  returned :: "exn + completion_result"

text \<open>
  What the function reads from outside itself: the module constants, the SDK call with
  the network behind it (returning the response as \<^verbatim>\<open>to_dict()\<close> gives it, a dictionary),
  the builtin \<^verbatim>\<open>str\<close>, and the two readings of \<^verbatim>\<open>_now_ms()\<close>.
\<close>

record chat_module =
  DEFAULT_MODEL :: string
  DEFAULT_TIMEOUT :: int
  chat_create :: "chat_request \<Rightarrow> exn + pydict"
  py_str :: "pyval \<Rightarrow> string"
  now_start :: int
  now_end :: int

text \<open>\<^verbatim>\<open>body[k] = v\<close> and \<^verbatim>\<open>body.update(other)\<close>.\<close>

definition dict_set :: "pydict \<Rightarrow> string \<Rightarrow> pyval \<Rightarrow> pydict" where
  "dict_set d k v = AList.update k v d"

definition dict_update :: "pydict \<Rightarrow> pydict \<Rightarrow> pydict" where
  "dict_update d other = fold (\<lambda>kv acc. dict_set acc (fst kv) (snd kv)) other d"

text \<open>
  \<^verbatim>\<open>
  body = {"model": model, "messages": messages, "temperature": float(temperature)}
  if max_tokens is not None:
      body["max_tokens"] = int(max_tokens)
  if extra_body:
      body.update(extra_body)
  \<close>
\<close>

definition request_body ::
  "string \<Rightarrow> pyval list \<Rightarrow> int option \<Rightarrow> real \<Rightarrow> pydict option \<Rightarrow> pydict" where
  "request_body model messages max_tokens temperature extra_body =
     (let body0 = [(''model'', PStr model), (''messages'', PList messages),
                   (''temperature'', PFloat temperature)];
          body1 = (case max_tokens of
                     None \<Rightarrow> body0
                   | Some n \<Rightarrow> dict_set body0 ''max_tokens'' (PInt n))
      in case extra_body of
           None \<Rightarrow> body1
         | Some xb \<Rightarrow> if xb \<noteq> [] then dict_update body1 xb else body1)"

text \<open>\<^verbatim>\<open>model = model or DEFAULT_MODEL\<close>.\<close>

definition chat_model :: "chat_module \<Rightarrow> string option \<Rightarrow> string" where
  "chat_model w model =
     (case model of
        None \<Rightarrow> DEFAULT_MODEL w
      | Some m \<Rightarrow> if m \<noteq> [] then m else DEFAULT_MODEL w)"

text \<open>
  The arguments of the outbound call: \<^verbatim>\<open>model\<close> and \<^verbatim>\<open>messages\<close> are the function's
  own, \<^verbatim>\<open>max_tokens\<close> and \<^verbatim>\<open>temperature\<close> are read back from \<^verbatim>\<open>body\<close> with
  \<^verbatim>\<open>body.get\<close>, \<^verbatim>\<open>extra_headers or {}\<close> and \<^verbatim>\<open>extra_body or {}\<close> are passed on.
\<close>

definition chat_request_of ::
  "chat_module \<Rightarrow> pyval list \<Rightarrow> string option \<Rightarrow> int option \<Rightarrow> real
     \<Rightarrow> (string \<times> string) list option \<Rightarrow> pydict option \<Rightarrow> chat_request" where
  "chat_request_of w messages model max_tokens temperature extra_headers extra_body =
     (let m = chat_model w model;
          body = request_body m messages max_tokens temperature extra_body
      in \<lparr>rq_model = m,
          rq_messages = messages,
          rq_max_tokens = dict_get body ''max_tokens'' PNone,
          rq_temperature = dict_get body ''temperature'' PNone,
          rq_extra_headers = (case extra_headers of None \<Rightarrow> [] | Some h \<Rightarrow> h),
          rq_extra_body = (case extra_body of None \<Rightarrow> [] | Some xb \<Rightarrow> xb),
          rq_timeout = DEFAULT_TIMEOUT w\<rparr>)"

text \<open>The two \<^verbatim>\<open>except\<close> clauses around the outbound call.\<close>

definition provider_error_of :: "exn \<Rightarrow> exn" where
  "provider_error_of e =
     (if is_api_error (exn_cls e) then Exn ProviderError (exn_msg e)
      else Exn ProviderError (''unexpected provider error: '' @ exn_msg e))"

subsection \<open>Text extraction\<close>

text \<open>\<^verbatim>\<open>v[0]\<close>, \<^verbatim>\<open>k in v\<close> and \<^verbatim>\<open>v[k]\<close> for a string \<^verbatim>\<open>k\<close>, on any value.\<close>

fun py_index0 :: "pyval \<Rightarrow> exn + pyval" where
  "py_index0 (PList xs) =
     (case xs of [] \<Rightarrow> Inl (Exn IndexError ''list index out of range'') | x # rest \<Rightarrow> Inr x)"
| "py_index0 (PStr s) =
     (case s of [] \<Rightarrow> Inl (Exn IndexError ''string index out of range'')
      | c # rest \<Rightarrow> Inr (PStr [c]))"
| "py_index0 (PDict d) = Inl (Exn KeyError ''0'')"
| "py_index0 v = Inl (Exn TypeError (quoted (type_name v) @ '' object is not subscriptable''))"

fun py_contains :: "pyval \<Rightarrow> string \<Rightarrow> exn + bool" where
  "py_contains (PDict d) k = Inr (map_of d k \<noteq> None)"
| "py_contains (PList xs) k = Inr (PStr k \<in> set xs)"
| "py_contains (PStr s) k = Inr (sublist k s)"
| "py_contains v k =
     Inl (Exn TypeError (''argument of type '' @ quoted (type_name v) @ '' is not iterable''))"

fun py_getitem :: "pyval \<Rightarrow> string \<Rightarrow> exn + pyval" where
  "py_getitem (PDict d) k =
     (case map_of d k of None \<Rightarrow> Inl (Exn KeyError (quoted k)) | Some v \<Rightarrow> Inr v)"
| "py_getitem (PList xs) k =
     Inl (Exn TypeError ''list indices must be integers or slices, not str'')"
| "py_getitem (PStr s) k =
     Inl (Exn TypeError (''string indices must be integers, not '' @ quoted ''str''))"
| "py_getitem v k = Inl (Exn TypeError (quoted (type_name v) @ '' object is not subscriptable''))"

text \<open>
  The loop over a list-valued \<^verbatim>\<open>content\<close>, giving \<^verbatim>\<open>parts\<close>:
  \<^verbatim>\<open>
  for chunk in msg_content:
      if isinstance(chunk, dict) and "text" in chunk:
          parts.append(chunk["text"])
      elif isinstance(chunk, str):
          parts.append(chunk)
  \<close>
\<close>

fun content_parts :: "pyval list \<Rightarrow> pyval list" where
  "content_parts [] = []"
| "content_parts (PDict d # rest) =
     (case map_of d ''text'' of
        Some t \<Rightarrow> t # content_parts rest
      | None \<Rightarrow> content_parts rest)"
| "content_parts (PStr s # rest) = PStr s # content_parts rest"
| "content_parts (chunk # rest) = content_parts rest"

text \<open>\<^verbatim>\<open>"".join(parts)\<close>: raises \<^verbatim>\<open>TypeError\<close> at an item that is not a string.\<close>

fun py_join :: "pyval list \<Rightarrow> exn + string" where
  "py_join [] = Inr []"
| "py_join (PStr s # ps) = (case py_join ps of Inl e \<Rightarrow> Inl e | Inr r \<Rightarrow> Inr (s @ r))"
| "py_join (p # ps) =
     Inl (Exn TypeError (''sequence item: expected str instance, '' @ type_name p @ '' found''))"

text \<open>The three cases on \<^verbatim>\<open>msg_content\<close>: a string, a list, anything else.\<close>

fun content_text :: "(pyval \<Rightarrow> string) \<Rightarrow> pyval \<Rightarrow> exn + pyval" where
  "content_text str_of (PStr s) = Inr (PStr s)"
| "content_text str_of (PList chunks) =
     (case py_join (content_parts chunks) of Inl e \<Rightarrow> Inl e | Inr s \<Rightarrow> Inr (PStr s))"
| "content_text str_of v = Inr (PStr (str_of v))"

text \<open>
  The body of the inner \<^verbatim>\<open>try\<close>, from \<^verbatim>\<open>if "choices" in raw and raw["choices"]\<close> on;
  \<^verbatim>\<open>text\<close> starts as the empty string. The test
  \<^verbatim>\<open>"message" in choice0 and isinstance(choice0["message"], dict)\<close> reads
  \<^verbatim>\<open>choice0["message"]\<close> only when the membership test holds.
\<close>

definition extract_text :: "(pyval \<Rightarrow> string) \<Rightarrow> pydict \<Rightarrow> exn + pyval" where
  "extract_text str_of raw =
     (case map_of raw ''choices'' of
        None \<Rightarrow> Inr (PStr [])
      | Some choices \<Rightarrow>
          if \<not> truthy choices then Inr (PStr [])
          else
            (case py_index0 choices of
               Inl e \<Rightarrow> Inl e
             | Inr choice0 \<Rightarrow>
                 (case py_contains choice0 ''message'' of
                    Inl e \<Rightarrow> Inl e
                  | Inr has \<Rightarrow>
                      (case (if has then py_getitem choice0 ''message'' else Inr PNone) of
                         Inl e \<Rightarrow> Inl e
                       | Inr (PDict message) \<Rightarrow>
                           content_text str_of (dict_get message ''content'' PNone)
                       | Inr other \<Rightarrow> py_get choice0 ''text'' (PStr [])))))"

text \<open>
  The inner \<^verbatim>\<open>try\<close> with its handler
  \<^verbatim>\<open>except Exception: text = str(raw.get("choices", raw))\<close>.
\<close>

definition chat_text :: "(pyval \<Rightarrow> string) \<Rightarrow> pydict \<Rightarrow> pyval" where
  "chat_text str_of raw =
     (case extract_text str_of raw of
        Inr t \<Rightarrow> t
      | Inl e \<Rightarrow> PStr (str_of (dict_get raw ''choices'' (PDict raw))))"

text \<open>
  \<^verbatim>\<open>usage = raw.get("usage", {}) or raw.get("meta", {}).get("usage", {}) or {}\<close>,
  outside any \<^verbatim>\<open>try\<close>.
\<close>

definition chat_usage :: "pydict \<Rightarrow> exn + pyval" where
  "chat_usage raw =
     (let u = dict_get raw ''usage'' (PDict [])
      in if truthy u then Inr u
         else
           (case py_get (dict_get raw ''meta'' (PDict [])) ''usage'' (PDict []) of
              Inl e \<Rightarrow> Inl e
            | Inr u2 \<Rightarrow> Inr (py_or u2 (PDict []))))"

definition call_chat_completions ::
  "chat_module \<Rightarrow> pyval list \<Rightarrow> string option \<Rightarrow> int option \<Rightarrow> real
     \<Rightarrow> (string \<times> string) list option \<Rightarrow> pydict option \<Rightarrow> chat_run" where
  "call_chat_completions w messages model max_tokens temperature extra_headers extra_body =
     (let rq = chat_request_of w messages model max_tokens temperature extra_headers extra_body
      in case chat_create w rq of
           Inl e \<Rightarrow> \<lparr>requests = [rq], returned = Inl (provider_error_of e)\<rparr>
         | Inr raw \<Rightarrow>
             \<lparr>requests = [rq],
              returned =
                (case chat_usage raw of
                   Inl e \<Rightarrow> Inl e
                 | Inr u \<Rightarrow>
                     Inr \<lparr>res_text = chat_text (py_str w) raw,
                          res_usage = u,
                          res_latency_ms = now_end w - now_start w,
                          res_raw = raw\<rparr>)\<rparr>)"

section \<open>Auxiliary definitions for the statements\<close>

text \<open>\<^verbatim>\<open>isinstance(v, str)\<close> and \<^verbatim>\<open>isinstance(v, list)\<close>.\<close>

fun is_str :: "pyval \<Rightarrow> bool" where
  "is_str (PStr s) = True"
| "is_str v = False"

fun is_list :: "pyval \<Rightarrow> bool" where
  "is_list (PList xs) = True"
| "is_list v = False"

text \<open>
  The reading of \<^verbatim>\<open>usage\<close> as the specification words it: the top-level \<^verbatim>\<open>usage\<close>
  field when present, else the nested \<^verbatim>\<open>meta.usage\<close> field when present, else the empty
  mapping. It is compared with \<open>chat_usage\<close>, which is the code.
\<close>

definition usage_as_specified :: "pydict \<Rightarrow> pyval" where
  "usage_as_specified raw =
     (case map_of raw ''usage'' of
        Some u \<Rightarrow> u
      | None \<Rightarrow>
          (case map_of raw ''meta'' of
             Some (PDict meta) \<Rightarrow> dict_get meta ''usage'' (PDict [])
           | other \<Rightarrow> PDict []))"

text \<open>
  Concrete inputs for the examples: a provider that answers every request with a given
  response or with a given exception, a stand-in for the builtin \<^verbatim>\<open>str\<close> (exact on
  strings, \<^verbatim>\<open>None\<close> and booleans, a placeholder elsewhere), a chat module with the
  source's defaults, and an environment holding an OpenRouter key.
\<close>

definition replies :: "pydict \<Rightarrow> 'rq \<Rightarrow> exn + pydict" where
  "replies raw rq = Inr raw"

definition fails :: "exn \<Rightarrow> 'rq \<Rightarrow> exn + pydict" where
  "fails e rq = Inl e"

fun example_str :: "pyval \<Rightarrow> string" where
  "example_str (PStr s) = s"
| "example_str PNone = ''None''"
| "example_str (PBool b) = (if b then ''True'' else ''False'')"
| "example_str v = ''<'' @ type_name v @ ''>''"

definition example_module :: "(chat_request \<Rightarrow> exn + pydict) \<Rightarrow> chat_module" where
  "example_module create =
     \<lparr>DEFAULT_MODEL = ''openai/chatgpt-4o-latest'', DEFAULT_TIMEOUT = 60,
      chat_create = create, py_str = example_str, now_start = 1000, now_end = 1250\<rparr>"

definition example_environ :: environ where
  "example_environ = [''OPENROUTER_API_KEY'' \<mapsto> ''sk-or-v1-test'']"

text \<open>
  The namespace the import leaves in that environment (see \<open>example_namespace_init\<close>).
\<close>

definition example_namespace :: namespace where
  "example_namespace =
     [''OPENROUTER_API_KEY'' \<mapsto> PStr ''sk-or-v1-test'',
      ''EMBED_MODEL'' \<mapsto> PStr ''text-embedding-3-small'',
      ''BASE_URL'' \<mapsto> PStr ''https://openrouter.ai/api/v1'',
      ''API_KEY'' \<mapsto> PStr ''sk-or-v1-test'',
      ''_client'' \<mapsto> PClient (PStr ''https://openrouter.ai/api/v1'') (PStr ''sk-or-v1-test'')]"

text \<open>
  What one content block contributes, as the specification words it: a block that is
  itself a string contributes that string, a mapping containing a \<^verbatim>\<open>text\<close> field
  contributes that field, any other block contributes nothing. \<open>contributed\<close> lists the
  contributions in list order; it is compared with \<open>content_parts\<close>, which is the code.
\<close>

fun block_contribution :: "pyval \<Rightarrow> pyval option" where
  "block_contribution (PStr s) = Some (PStr s)"
| "block_contribution (PDict d) = map_of d ''text''"
| "block_contribution v = None"

definition contributed :: "pyval list \<Rightarrow> pyval list" where
  "contributed chunks = List.map_filter block_contribution chunks"

section \<open>Facts about the embedding module\<close>

text \<open>
  An import that succeeds found a non-empty OpenRouter key, and leaves a namespace in
  which \<^verbatim>\<open>DEFAULT_TIMEOUT\<close> is not bound: the module neither defines nor imports it.
\<close>

lemma embeddings_module_init_Inr:
  assumes "embeddings_module_init env = Inr g"
  shows "\<exists>k m. k \<noteq> [] \<and> env ''OPENROUTER_API_KEY'' = Some k
          \<and> g ''OPENROUTER_API_KEY'' = Some (PStr k)
          \<and> g ''EMBED_MODEL'' = Some (PStr m)
          \<and> g ''DEFAULT_TIMEOUT'' = None
          \<and> g ''_client'' = Some (PClient (PStr ''https://openrouter.ai/api/v1'') (PStr k))"
  using assms
  by (auto simp add: embeddings_module_init_def getenv_def getenv_default_def load_name_def
        Let_def py_or_def split: option.splits if_splits)

lemma embeddings_module_init_keyed:
  assumes "env ''OPENROUTER_API_KEY'' = Some k" and "k \<noteq> []"
  shows "\<exists>g. embeddings_module_init env = Inr g"
  using assms
  by (simp add: embeddings_module_init_def getenv_def getenv_default_def load_name_def
        Let_def py_or_def)

text \<open>Without a key (unset, or set to the empty string) the import itself fails.\<close>

lemma embeddings_module_init_unkeyed:
  assumes "env ''OPENROUTER_API_KEY'' = None \<or> env ''OPENROUTER_API_KEY'' = Some []"
  shows "embeddings_module_init env = Inl (Exn NameError ''name 'BASE_URL' is not defined'')"
  using assms
  by (auto simp add: embeddings_module_init_def getenv_def getenv_default_def load_name_def
        Let_def quoted_def)

text \<open>After a successful import, every call with a non-empty batch ends the same way.\<close>

lemma embed_texts_after_init:
  assumes "embeddings_module_init env = Inr g" and "texts \<noteq> []"
  shows "embed_texts g create texts model =
           \<lparr>sent = [],
            logged = [Log ERROR ''Unexpected embeddings error: %s''
                        [ArgExn (Exn NameError ''name 'DEFAULT_TIMEOUT' is not defined'')]],
            outcome = Inl (Exn EmbeddingError
                        ''unexpected embedding error: name 'DEFAULT_TIMEOUT' is not defined'')\<rparr>"
proof -
  from embeddings_module_init_Inr[OF assms(1)] obtain k m where g:
    "k \<noteq> []" "g ''OPENROUTER_API_KEY'' = Some (PStr k)" "g ''EMBED_MODEL'' = Some (PStr m)"
    "g ''DEFAULT_TIMEOUT'' = None"
    "g ''_client'' = Some (PClient (PStr ''https://openrouter.ai/api/v1'') (PStr k))"
    by blast
  have c: "embeddings_create g create mm texts =
             ([], Inl (Exn NameError ''name 'DEFAULT_TIMEOUT' is not defined''))" for mm
    using g by (simp add: embeddings_create_def load_name_def quoted_def)
  have "\<exists>mm. embed_model g model = Inr mm"
    using g by (simp add: embed_model_def load_name_def split: option.splits)
  then obtain mm where mm: "embed_model g model = Inr mm" by blast
  show ?thesis
    using g \<open>texts \<noteq> []\<close>
    by (simp add: embed_texts_def mm c load_name_def embedding_error_of_def
          embedding_error_log_def)
qed

lemma example_namespace_init: "embeddings_module_init example_environ = Inr example_namespace"
  by (simp add: embeddings_module_init_def example_environ_def example_namespace_def getenv_def
        getenv_default_def load_name_def Let_def py_or_def)

section \<open>Claims about credentials and the empty batch\<close>

text \<open>
  Claim C1 says that with no resolvable credential each gateway hands the caller its
  typed error before any network I/O, the embedding gateway raising \<open>EmbeddingError\<close> on
  first use of \<^verbatim>\<open>embed_texts\<close>, and that no code path, module initialisation included,
  raises an untyped exception. The code does otherwise: in an environment with no key at
  all, importing the embedding module raises a plain \<^verbatim>\<open>NameError\<close>, because
  \<^verbatim>\<open>BASE_URL\<close> is read although it was bound only under \<^verbatim>\<open>if OPENROUTER_API_KEY\<close>.
  \<^verbatim>\<open>embed_texts\<close> and its own key check are never reached.
\<close>

theorem import_without_key_raises_NameError:
  "embeddings_module_init Map.empty = Inl (Exn NameError ''name 'BASE_URL' is not defined'')"
  by (simp add: embeddings_module_init_def getenv_def getenv_default_def load_name_def
        Let_def quoted_def)

text \<open>
  Claim C9: for the empty list of input texts, \<^verbatim>\<open>embed_texts\<close> returns the empty list
  and performs no network call. It holds in every namespace a successful import of the
  module leaves, for every provider behaviour and every \<^verbatim>\<open>model\<close> argument: nothing is
  sent, nothing is logged.
\<close>

theorem empty_input_returns_empty_without_request:
  assumes "embeddings_module_init env = Inr g"
  shows "embed_texts g create [] model = \<lparr>sent = [], logged = [], outcome = Inr []\<rparr>"
proof -
  from embeddings_module_init_Inr[OF assms] obtain k m where
    "k \<noteq> []" "g ''OPENROUTER_API_KEY'' = Some (PStr k)" "g ''EMBED_MODEL'' = Some (PStr m)"
    by blast
  then show ?thesis
    by (simp add: embed_texts_def embed_model_def load_name_def split: option.splits)
qed

theorem empty_input_returns_empty_without_request_witness:
  "\<exists>g. embeddings_module_init example_environ = Inr g
      \<and> embed_texts g (replies [(''data'', PList [])]) [] None
          = \<lparr>sent = [], logged = [], outcome = Inr []\<rparr>"
proof -
  obtain g where g: "embeddings_module_init example_environ = Inr g"
    using embeddings_module_init_keyed[of example_environ "''sk-or-v1-test''"]
    by (auto simp add: example_environ_def)
  show ?thesis
    using g empty_input_returns_empty_without_request[OF g] by blast
qed

text \<open>
  Claim C10: when the OpenRouter credential is configured, every call of
  \<^verbatim>\<open>embed_texts\<close> on a non-empty list of texts raises \<open>EmbeddingError\<close> with a message
  that starts with \<^verbatim>\<open>unexpected embedding error:\<close>, and no request is issued: the
  \<^verbatim>\<open>timeout\<close> argument reads \<^verbatim>\<open>DEFAULT_TIMEOUT\<close>, which the module never binds, and the
  generic handler wraps the resulting \<^verbatim>\<open>NameError\<close>.
\<close>

theorem nonempty_input_always_raises_before_request:
  assumes "env ''OPENROUTER_API_KEY'' = Some k" and "k \<noteq> []" and "texts \<noteq> []"
  shows "\<exists>g. embeddings_module_init env = Inr g
          \<and> sent (embed_texts g create texts model) = []
          \<and> outcome (embed_texts g create texts model)
              = Inl (Exn EmbeddingError
                  (''unexpected embedding error: '' @ ''name 'DEFAULT_TIMEOUT' is not defined''))"
proof -
  obtain g where g: "embeddings_module_init env = Inr g"
    using embeddings_module_init_keyed[of env k] assms(1,2) by blast
  show ?thesis
    using g embed_texts_after_init[OF g assms(3)] by simp
qed

theorem nonempty_input_always_raises_before_request_witness:
  "example_environ ''OPENROUTER_API_KEY'' = Some ''sk-or-v1-test'' \<and> ''sk-or-v1-test'' \<noteq> []
   \<and> [''hello''] \<noteq> []
   \<and> (\<exists>g. embeddings_module_init example_environ = Inr g
          \<and> sent (embed_texts g (replies [(''data'', PList [PDict [(''embedding'', PList [PFloat 1])]])])
                    [''hello''] None) = []
          \<and> outcome (embed_texts g (replies [(''data'', PList [PDict [(''embedding'', PList [PFloat 1])]])])
                    [''hello''] None)
              = Inl (Exn EmbeddingError
                  (''unexpected embedding error: '' @ ''name 'DEFAULT_TIMEOUT' is not defined'')))"
proof -
  have a: "example_environ ''OPENROUTER_API_KEY'' = Some ''sk-or-v1-test''"
    by (simp add: example_environ_def)
  have b: "''sk-or-v1-test'' \<noteq> []" by simp
  have c: "[''hello''] \<noteq> []" by simp
  show ?thesis
    using a b c
      nonempty_input_always_raises_before_request[of example_environ "''sk-or-v1-test''" "[''hello'']"]
    by simp
qed

section \<open>Claims about exception wrapping\<close>

lemma sublist_wrapped: "sublist m (p @ m)"
  by (simp add: sublist_def) (metis append_Nil2)

lemma provider_error_of_contains:
  "exn_cls (provider_error_of e) = ProviderError
   \<and> sublist (exn_msg e) (exn_msg (provider_error_of e))"
  using sublist_wrapped[of "exn_msg e" "''unexpected provider error: ''"]
  by (simp add: provider_error_of_def)

lemma embedding_error_of_contains:
  "exn_cls (embedding_error_of e) = EmbeddingError
   \<and> sublist (exn_msg e) (exn_msg (embedding_error_of e))"
  using sublist_wrapped[of "exn_msg e" "''unexpected embedding error: ''"]
  by (simp add: embedding_error_of_def)

text \<open>
  Claim C2: every exception raised during the outbound provider call (transport, auth,
  rate limit, timeout, server fault, or any other exception) is re-raised by
  \<^verbatim>\<open>call_chat_completions\<close> as \<open>ProviderError\<close> and by \<^verbatim>\<open>embed_texts\<close> as
  \<open>EmbeddingError\<close>, the typed error's message containing the original message, and no
  SDK exception type escapes from the call. For the chat gateway the hypothesis is that
  the SDK call on the request built raises \<open>e\<close>. For the embedding gateway it is that
  control reaches the \<^verbatim>\<open>try\<close> (the model resolves, the key is truthy, the batch is not
  empty) and the guarded statement raises \<open>e'\<close>, whether from the SDK call or while its
  arguments are evaluated.
\<close>

theorem provider_call_exceptions_are_wrapped:
  "(chat_create w (chat_request_of w messages model max_tokens temperature hs xb) = Inl e \<longrightarrow>
      returned (call_chat_completions w messages model max_tokens temperature hs xb)
        = Inl (provider_error_of e)
      \<and> exn_cls (provider_error_of e) = ProviderError
      \<and> sublist (exn_msg e) (exn_msg (provider_error_of e)))
   \<and> (embed_model g emodel = Inr m \<and> g ''OPENROUTER_API_KEY'' = Some key \<and> truthy key
        \<and> texts \<noteq> [] \<and> snd (embeddings_create g create m texts) = Inl e' \<longrightarrow>
      outcome (embed_texts g create texts emodel) = Inl (embedding_error_of e')
      \<and> exn_cls (embedding_error_of e') = EmbeddingError
      \<and> sublist (exn_msg e') (exn_msg (embedding_error_of e')))"
proof (intro conjI impI)
  assume "chat_create w (chat_request_of w messages model max_tokens temperature hs xb) = Inl e"
  then show "returned (call_chat_completions w messages model max_tokens temperature hs xb)
        = Inl (provider_error_of e)"
    by (simp add: call_chat_completions_def Let_def)
next
  assume a: "embed_model g emodel = Inr m \<and> g ''OPENROUTER_API_KEY'' = Some key \<and> truthy key
        \<and> texts \<noteq> [] \<and> snd (embeddings_create g create m texts) = Inl e'"
  then obtain rqs where "embeddings_create g create m texts = (rqs, Inl e')"
    by (cases "embeddings_create g create m texts") auto
  with a show "outcome (embed_texts g create texts emodel) = Inl (embedding_error_of e')"
    by (simp add: embed_texts_def load_name_def)
qed (simp_all add: provider_error_of_contains embedding_error_of_contains)

text \<open>
  Four runs: a timeout and an unforeseen exception on the chat gateway; a rate limit on
  the embedding gateway in a namespace that binds \<^verbatim>\<open>DEFAULT_TIMEOUT\<close>; and the same call
  in the namespace the module's own import leaves, where the guarded statement raises
  \<^verbatim>\<open>NameError\<close> before the SDK is called.
\<close>

theorem provider_call_exceptions_are_wrapped_witness:
  "returned (call_chat_completions (example_module (fails (Exn APITimeoutError ''Request timed out.'')))
       [PDict [(''role'', PStr ''user''), (''content'', PStr ''hi'')]] None None 0 None None)
     = Inl (Exn ProviderError ''Request timed out.'')
   \<and> returned (call_chat_completions
       (example_module (fails (Exn (OtherException ''ValueError'') ''bad value'')))
       [PDict [(''role'', PStr ''user''), (''content'', PStr ''hi'')]] None None 0 None None)
     = Inl (Exn ProviderError ''unexpected provider error: bad value'')
   \<and> outcome (embed_texts (example_namespace(''DEFAULT_TIMEOUT'' \<mapsto> PInt 30))
                 (fails (Exn RateLimitError ''Rate limit exceeded'')) [''hello''] None)
     = Inl (Exn EmbeddingError ''Rate limit exceeded'')
   \<and> outcome (embed_texts example_namespace
                 (fails (Exn RateLimitError ''Rate limit exceeded'')) [''hello''] None)
     = Inl (Exn EmbeddingError ''unexpected embedding error: name 'DEFAULT_TIMEOUT' is not defined'')"
proof -
  let ?msgs = "[PDict [(''role'', PStr ''user''), (''content'', PStr ''hi'')]]"
  let ?w1 = "example_module (fails (Exn APITimeoutError ''Request timed out.''))"
  let ?w2 = "example_module (fails (Exn (OtherException ''ValueError'') ''bad value''))"
  let ?g1 = "example_namespace(''DEFAULT_TIMEOUT'' \<mapsto> PInt 30)"
  let ?cr = "fails (Exn RateLimitError ''Rate limit exceeded'') :: embed_request \<Rightarrow> exn + pydict"
  have 1: "returned (call_chat_completions ?w1 ?msgs None None 0 None None)
             = Inl (Exn ProviderError ''Request timed out.'')"
    using provider_call_exceptions_are_wrapped[of ?w1 ?msgs None None 0 None None
        "Exn APITimeoutError ''Request timed out.''"]
    by (simp add: example_module_def fails_def provider_error_of_def)
  have 2: "returned (call_chat_completions ?w2 ?msgs None None 0 None None)
             = Inl (Exn ProviderError ''unexpected provider error: bad value'')"
    using provider_call_exceptions_are_wrapped[of ?w2 ?msgs None None 0 None None
        "Exn (OtherException ''ValueError'') ''bad value''"]
    by (simp add: example_module_def fails_def provider_error_of_def)
  have 3: "outcome (embed_texts ?g1 ?cr [''hello''] None)
             = Inl (Exn EmbeddingError ''Rate limit exceeded'')"
    using provider_call_exceptions_are_wrapped[of _ _ _ _ _ _ _ _ ?g1 None
        "PStr ''text-embedding-3-small''" "PStr ''sk-or-v1-test''" "[''hello'']" ?cr
        "Exn RateLimitError ''Rate limit exceeded''"]
    by (simp add: example_namespace_def embed_model_def load_name_def embeddings_create_def
          fails_def embedding_error_of_def Let_def)
  have 4: "outcome (embed_texts example_namespace ?cr [''hello''] None)
      = Inl (Exn EmbeddingError ''unexpected embedding error: name 'DEFAULT_TIMEOUT' is not defined'')"
    using provider_call_exceptions_are_wrapped[of _ _ _ _ _ _ _ _ example_namespace None
        "PStr ''text-embedding-3-small''" "PStr ''sk-or-v1-test''" "[''hello'']" ?cr
        "Exn NameError ''name 'DEFAULT_TIMEOUT' is not defined''"]
    by (simp add: example_namespace_def embed_model_def load_name_def embeddings_create_def
          fails_def embedding_error_of_def Let_def quoted_def)
  from 1 2 3 4 show ?thesis by blast
qed

section \<open>Claims about the text of a chat result\<close>

lemma py_join_strings: "py_join (map PStr ss) = Inr (concat ss)"
  by (induction ss) simp_all

text \<open>The loop of the code collects what the specification's wording describes.\<close>

lemma content_parts_contributed: "content_parts chunks = contributed chunks"
  by (induction chunks rule: content_parts.induct)
     (simp_all add: contributed_def split: option.splits)

lemma extract_text_message:
  assumes "map_of raw ''choices'' = Some (PList (PDict choice0 # rest))"
      and "map_of choice0 ''message'' = Some (PDict message)"
  shows "extract_text str_of raw = content_text str_of (dict_get message ''content'' PNone)"
  using assms by (simp add: extract_text_def)

text \<open>
  A failure of the extraction never leaves the function: the handler turns it into the
  stringified \<^verbatim>\<open>choices\<close>, and a failure can only happen when \<^verbatim>\<open>choices\<close> is present.
\<close>

lemma chat_text_fallback:
  assumes "extract_text str_of raw = Inl e"
  shows "chat_text str_of raw = PStr (str_of (dict_get raw ''choices'' (PDict raw)))"
  using assms by (simp add: chat_text_def)

lemma extract_text_raises_only_with_choices:
  assumes "extract_text str_of raw = Inl e"
  shows "\<exists>choices. map_of raw ''choices'' = Some choices \<and> truthy choices"
  using assms by (auto simp add: extract_text_def split: option.splits if_splits)

lemma content_text_is_str: "content_text str_of c = Inr t \<Longrightarrow> is_str t"
  by (cases c) (auto split: sum.splits)

text \<open>
  The text is a string on every path but one: the legacy branch
  \<^verbatim>\<open>text = choice0.get("text", "")\<close> hands on whatever the field holds.
\<close>

lemma chat_text_str_or_legacy:
  "is_str (chat_text str_of raw)
   \<or> (\<exists>choices choice0. map_of raw ''choices'' = Some choices
         \<and> py_index0 choices = Inr (PDict choice0)
         \<and> map_of choice0 ''text'' = Some (chat_text str_of raw))"
proof (cases "extract_text str_of raw")
  case (Inl e)
  then show ?thesis by (simp add: chat_text_def)
next
  case (Inr t)
  then have ct: "chat_text str_of raw = t" by (simp add: chat_text_def)
  show ?thesis
  proof (cases "is_str t")
    case True
    then show ?thesis by (simp add: ct)
  next
    case False
    from Inr False show ?thesis
      unfolding ct
      by (auto simp add: extract_text_def dict_get_def dest: content_text_is_str
            split: option.splits if_splits sum.splits pyval.splits elim!: py_get.elims)
  qed
qed

text \<open>
  Claim C3 says that the \<^verbatim>\<open>text\<close> field of the record returned is always a string,
  never \<^verbatim>\<open>None\<close>, and that a failing extraction falls back to the stringified
  \<^verbatim>\<open>choices\<close>. The first half fails on the legacy branch: for the response
  \<^verbatim>\<open>{"choices": [{"text": null}]}\<close> the first choice has no \<^verbatim>\<open>message\<close>, so
  \<^verbatim>\<open>text = choice0.get("text", "")\<close> yields \<^verbatim>\<open>None\<close>, nothing raises, and the function
  returns \<^verbatim>\<open>None\<close> as \<^verbatim>\<open>text\<close>, whatever the other arguments are. The function's
  docstring promises \<^verbatim>\<open>"text": <str>\<close>, and the branch for \<^verbatim>\<open>message.content\<close> coerces
  with \<^verbatim>\<open>str\<close>.
\<close>

theorem legacy_text_null_is_returned_as_None:
  "returned (call_chat_completions
              (w\<lparr>chat_create := replies [(''choices'', PList [PDict [(''text'', PNone)]])]\<rparr>)
              messages model max_tokens temperature hs xb)
     = Inr \<lparr>res_text = PNone, res_usage = PDict [],
            res_latency_ms = now_end w - now_start w,
            res_raw = [(''choices'', PList [PDict [(''text'', PNone)]])]\<rparr>"
  by (simp add: call_chat_completions_def Let_def replies_def chat_usage_def dict_get_def
        py_or_def chat_text_def extract_text_def)

text \<open>
  The text of a result, for a response whose first choice has a \<^verbatim>\<open>message\<close> object
  and on which the \<^verbatim>\<open>usage\<close> line does not raise: it is \<open>s\<close> itself when
  \<^verbatim>\<open>message.content\<close> is a string \<open>s\<close>; it is the concatenation, in list order and with
  no separator, of what the blocks contribute when the content is a list of blocks (a
  block that is a string contributes itself, a mapping containing \<^verbatim>\<open>text\<close> contributes
  that field; the contributions are the strings \<open>ss\<close>); and it is the string
  representation of the content when that is anything else, an absent \<^verbatim>\<open>content\<close>
  reading as \<^verbatim>\<open>None\<close>.
\<close>

theorem message_content_becomes_text:
  assumes "chat_create w (chat_request_of w messages model max_tokens temperature hs xb) = Inr raw"
      and "map_of raw ''choices'' = Some (PList (PDict choice0 # rest))"
      and "map_of choice0 ''message'' = Some (PDict message)"
      and "chat_usage raw = Inr u"
      and "content = dict_get message ''content'' PNone"
  shows "(content = PStr s \<longrightarrow>
            returned (call_chat_completions w messages model max_tokens temperature hs xb)
              = Inr \<lparr>res_text = PStr s, res_usage = u,
                     res_latency_ms = now_end w - now_start w, res_raw = raw\<rparr>)
       \<and> (content = PList chunks \<and> contributed chunks = map PStr ss \<longrightarrow>
            returned (call_chat_completions w messages model max_tokens temperature hs xb)
              = Inr \<lparr>res_text = PStr (concat ss), res_usage = u,
                     res_latency_ms = now_end w - now_start w, res_raw = raw\<rparr>)
       \<and> (\<not> is_str content \<and> \<not> is_list content \<longrightarrow>
            returned (call_chat_completions w messages model max_tokens temperature hs xb)
              = Inr \<lparr>res_text = PStr (py_str w content), res_usage = u,
                     res_latency_ms = now_end w - now_start w, res_raw = raw\<rparr>)"
proof -
  have ex: "extract_text (py_str w) raw = content_text (py_str w) content"
    using extract_text_message[OF assms(2,3)] assms(5) by simp
  have call: "returned (call_chat_completions w messages model max_tokens temperature hs xb)
      = Inr \<lparr>res_text = chat_text (py_str w) raw, res_usage = u,
             res_latency_ms = now_end w - now_start w, res_raw = raw\<rparr>"
    using assms(1,4) by (simp add: call_chat_completions_def Let_def)
  have a: "content = PStr s \<Longrightarrow> chat_text (py_str w) raw = PStr s"
    by (simp add: chat_text_def ex)
  have b: "content = PList chunks \<Longrightarrow> contributed chunks = map PStr ss
            \<Longrightarrow> chat_text (py_str w) raw = PStr (concat ss)"
    by (simp add: chat_text_def ex py_join_strings content_parts_contributed)
  have c: "\<not> is_str content \<Longrightarrow> \<not> is_list content
            \<Longrightarrow> chat_text (py_str w) raw = PStr (py_str w content)"
    by (cases content) (simp_all add: chat_text_def ex)
  show ?thesis
    using a b c by (simp add: call)
qed

text \<open>
  The three cases run: the blocks \<^verbatim>\<open>[{"text": "a"}, {"text": "b"}]\<close> give \<^verbatim>\<open>"ab"\<close>, the
  string \<^verbatim>\<open>"hello"\<close> gives itself, and \<^verbatim>\<open>None\<close> gives \<^verbatim>\<open>"None"\<close>.
\<close>

theorem message_content_becomes_text_witness:
  "returned (call_chat_completions
       (example_module (replies [(''choices'', PList [PDict [(''message'',
            PDict [(''role'', PStr ''assistant''),
                   (''content'', PList [PDict [(''text'', PStr ''a'')], PDict [(''text'', PStr ''b'')]])])]])]))
       [] None None 0 None None)
     = Inr \<lparr>res_text = PStr ''ab'', res_usage = PDict [], res_latency_ms = 250,
            res_raw = [(''choices'', PList [PDict [(''message'',
            PDict [(''role'', PStr ''assistant''),
                   (''content'', PList [PDict [(''text'', PStr ''a'')], PDict [(''text'', PStr ''b'')]])])]])]\<rparr>
   \<and> returned (call_chat_completions
       (example_module (replies [(''choices'', PList [PDict [(''message'',
            PDict [(''content'', PStr ''hello'')])]])]))
       [] None None 0 None None)
     = Inr \<lparr>res_text = PStr ''hello'', res_usage = PDict [], res_latency_ms = 250,
            res_raw = [(''choices'', PList [PDict [(''message'', PDict [(''content'', PStr ''hello'')])]])]\<rparr>
   \<and> returned (call_chat_completions
       (example_module (replies [(''choices'', PList [PDict [(''message'',
            PDict [(''content'', PNone)])]])]))
       [] None None 0 None None)
     = Inr \<lparr>res_text = PStr ''None'', res_usage = PDict [], res_latency_ms = 250,
            res_raw = [(''choices'', PList [PDict [(''message'', PDict [(''content'', PNone)])]])]\<rparr>"
proof -
  let ?m1 = "[(''role'', PStr ''assistant''),
              (''content'', PList [PDict [(''text'', PStr ''a'')], PDict [(''text'', PStr ''b'')]])]"
  let ?r1 = "[(''choices'', PList [PDict [(''message'', PDict ?m1)]])]"
  let ?m2 = "[(''content'', PStr ''hello'')]"
  let ?r2 = "[(''choices'', PList [PDict [(''message'', PDict ?m2)]])]"
  let ?m3 = "[(''content'', PNone)]"
  let ?r3 = "[(''choices'', PList [PDict [(''message'', PDict ?m3)]])]"
  have 1: "returned (call_chat_completions (example_module (replies ?r1)) [] None None 0 None None)
     = Inr \<lparr>res_text = PStr ''ab'', res_usage = PDict [], res_latency_ms = 250, res_raw = ?r1\<rparr>"
    using message_content_becomes_text[of "example_module (replies ?r1)" "[]" None None 0 None None
        ?r1 "[(''message'', PDict ?m1)]" "[]" ?m1 "PDict []"
        "PList [PDict [(''text'', PStr ''a'')], PDict [(''text'', PStr ''b'')]]"
        "''x''" "[PDict [(''text'', PStr ''a'')], PDict [(''text'', PStr ''b'')]]" "[''a'', ''b'']"]
    by (simp add: example_module_def replies_def chat_usage_def dict_get_def py_or_def
          contributed_def)
  have 2: "returned (call_chat_completions (example_module (replies ?r2)) [] None None 0 None None)
     = Inr \<lparr>res_text = PStr ''hello'', res_usage = PDict [], res_latency_ms = 250, res_raw = ?r2\<rparr>"
    using message_content_becomes_text[of "example_module (replies ?r2)" "[]" None None 0 None None
        ?r2 "[(''message'', PDict ?m2)]" "[]" ?m2 "PDict []" "PStr ''hello''" "''hello''"]
    by (simp add: example_module_def replies_def chat_usage_def dict_get_def py_or_def)
  have 3: "returned (call_chat_completions (example_module (replies ?r3)) [] None None 0 None None)
     = Inr \<lparr>res_text = PStr ''None'', res_usage = PDict [], res_latency_ms = 250, res_raw = ?r3\<rparr>"
    using message_content_becomes_text[of "example_module (replies ?r3)" "[]" None None 0 None None
        ?r3 "[(''message'', PDict ?m3)]" "[]" ?m3 "PDict []" PNone]
    by (simp add: example_module_def replies_def chat_usage_def dict_get_def py_or_def)
  from 1 2 3 show ?thesis by blast
qed

text \<open>
  Claim C4 says that for every provider response whose first choice has a \<^verbatim>\<open>message\<close>
  object the returned \<^verbatim>\<open>text\<close> equals the string content exactly, the concatenation of
  the blocks of a list content, or the string representation of any other content. The
  code does otherwise on the response
  \<^verbatim>\<open>{"choices": [{"message": {"content": "hello"}}], "meta": null}\<close>: the text
  \<^verbatim>\<open>"hello"\<close> is extracted, then the \<^verbatim>\<open>usage\<close> line, which its comment calls a
  defensive extraction, calls \<^verbatim>\<open>.get\<close> on \<^verbatim>\<open>None\<close>; the call raises
  \<^verbatim>\<open>AttributeError\<close> outside every handler and returns no text at all, whatever the
  other arguments are.
\<close>

theorem message_text_lost_when_meta_is_null:
  "chat_text (py_str w)
       [(''choices'', PList [PDict [(''message'', PDict [(''content'', PStr ''hello'')])]]),
        (''meta'', PNone)]
     = PStr ''hello''
   \<and> returned (call_chat_completions
              (w\<lparr>chat_create := replies
                   [(''choices'', PList [PDict [(''message'', PDict [(''content'', PStr ''hello'')])]]),
                    (''meta'', PNone)]\<rparr>)
              messages model max_tokens temperature hs xb)
     = Inl (Exn AttributeError (quoted ''NoneType'' @ '' object has no attribute '' @ quoted ''get''))"
  by (simp add: call_chat_completions_def Let_def replies_def chat_usage_def dict_get_def
        no_attribute_def quoted_def chat_text_def extract_text_def)

section \<open>Claims about the outgoing request\<close>

lemma map_of_dict_set: "map_of (dict_set d k v) k' = (if k' = k then Some v else map_of d k')"
  by (simp add: dict_set_def update_conv')

text \<open>\<^verbatim>\<open>body.update(other)\<close>: the keys of \<^verbatim>\<open>other\<close> win over those of \<^verbatim>\<open>body\<close>.\<close>

lemma map_of_dict_update:
  "distinct (map fst other) \<Longrightarrow>
   map_of (dict_update d other) k = (case map_of other k of Some v \<Rightarrow> Some v | None \<Rightarrow> map_of d k)"
proof (induction other arbitrary: d)
  case Nil
  then show ?case by (simp add: dict_update_def)
next
  case (Cons kv other)
  have step: "dict_update d (kv # other) = dict_update (dict_set d (fst kv) (snd kv)) other"
    by (simp add: dict_update_def)
  from Cons.prems have d: "distinct (map fst other)" and n: "fst kv \<notin> fst ` set other"
    by simp_all
  from n have none: "map_of other (fst kv) = None"
    by (simp add: map_of_eq_None_iff)
  show ?case
    unfolding step Cons.IH[OF d]
    using none by (cases kv) (auto simp add: map_of_dict_set split: option.splits)
qed

lemma request_body_lookup:
  assumes "distinct (map fst (case extra_body of None \<Rightarrow> [] | Some x \<Rightarrow> x))"
  shows "map_of (request_body m messages max_tokens temperature extra_body) k =
           (case map_of (case extra_body of None \<Rightarrow> [] | Some x \<Rightarrow> x) k of
              Some v \<Rightarrow> Some v
            | None \<Rightarrow>
                map_of ([(''model'', PStr m), (''messages'', PList messages),
                         (''temperature'', PFloat temperature)]
                        @ (case max_tokens of None \<Rightarrow> [] | Some n \<Rightarrow> [(''max_tokens'', PInt n)])) k)"
  using assms
  by (auto simp add: request_body_def Let_def map_of_dict_update map_of_dict_set
        split: option.splits)

text \<open>
  Claim C5 says that on a key collision between \<^verbatim>\<open>extra_body\<close> and a request-declared
  field (\<^verbatim>\<open>model\<close>, \<^verbatim>\<open>messages\<close>, \<^verbatim>\<open>temperature\<close>, \<^verbatim>\<open>max_tokens\<close>) the declared field
  takes precedence in what is sent. As amended: \<^verbatim>\<open>extra_body\<close> is passed on unchanged as
  the call's \<^verbatim>\<open>extra_body\<close> argument; the \<^verbatim>\<open>model\<close> and \<^verbatim>\<open>messages\<close> arguments are always
  the request's own (the model defaulted when omitted or empty); the \<^verbatim>\<open>temperature\<close> and
  \<^verbatim>\<open>max_tokens\<close> arguments are read back from the merged body, so that on a collision the
  value in \<^verbatim>\<open>extra_body\<close> is the one sent, and the declared value only otherwise. The
  hypothesis says that \<^verbatim>\<open>extra_body\<close> is a dictionary: no key twice.
\<close>

theorem outbound_arguments_after_merge:
  assumes "distinct (map fst (case extra_body of None \<Rightarrow> [] | Some x \<Rightarrow> x))"
  shows "requests (call_chat_completions w messages model max_tokens temperature hs extra_body)
           = [\<lparr>rq_model = chat_model w model,
               rq_messages = messages,
               rq_max_tokens =
                 (case map_of (case extra_body of None \<Rightarrow> [] | Some x \<Rightarrow> x) ''max_tokens'' of
                    Some v \<Rightarrow> v
                  | None \<Rightarrow> (case max_tokens of None \<Rightarrow> PNone | Some n \<Rightarrow> PInt n)),
               rq_temperature =
                 (case map_of (case extra_body of None \<Rightarrow> [] | Some x \<Rightarrow> x) ''temperature'' of
                    Some v \<Rightarrow> v
                  | None \<Rightarrow> PFloat temperature),
               rq_extra_headers = (case hs of None \<Rightarrow> [] | Some h \<Rightarrow> h),
               rq_extra_body = (case extra_body of None \<Rightarrow> [] | Some x \<Rightarrow> x),
               rq_timeout = DEFAULT_TIMEOUT w\<rparr>]"
proof -
  have rq: "requests (call_chat_completions w messages model max_tokens temperature hs extra_body)
      = [chat_request_of w messages model max_tokens temperature hs extra_body]"
    by (simp add: call_chat_completions_def Let_def split: sum.splits)
  show ?thesis
    unfolding rq
    by (simp add: chat_request_of_def Let_def dict_get_def request_body_lookup[OF assms]
          split: option.splits)
qed

text \<open>
  A call with \<^verbatim>\<open>max_tokens=100\<close> and \<^verbatim>\<open>extra_body={"max_tokens": 5, "top_p": 0.5}\<close>: the
  request carries \<^verbatim>\<open>max_tokens=5\<close>.
\<close>

theorem outbound_arguments_after_merge_witness:
  "distinct (map fst [(''max_tokens'', PInt 5), (''top_p'', PFloat (1/2))])
   \<and> requests (call_chat_completions (example_module (replies [])) [] (Some ''m'') (Some 100) 0 None
               (Some [(''max_tokens'', PInt 5), (''top_p'', PFloat (1/2))]))
     = [\<lparr>rq_model = ''m'', rq_messages = [], rq_max_tokens = PInt 5,
         rq_temperature = PFloat 0, rq_extra_headers = [],
         rq_extra_body = [(''max_tokens'', PInt 5), (''top_p'', PFloat (1/2))], rq_timeout = 60\<rparr>]"
  using outbound_arguments_after_merge[of "Some [(''max_tokens'', PInt 5), (''top_p'', PFloat (1/2))]"
      "example_module (replies [])" "[]" "Some ''m''" "Some 100" 0 None]
  by (simp add: chat_model_def example_module_def)

text \<open>
  Against claim C5 as stated: a call that declares \<^verbatim>\<open>temperature=0.0\<close> and passes
  \<^verbatim>\<open>extra_body={"temperature": 0.9}\<close> sends \<^verbatim>\<open>temperature=0.9\<close>, both as the
  \<^verbatim>\<open>temperature\<close> argument and inside \<^verbatim>\<open>extra_body\<close>; the declared value is not in the
  request at all.
\<close>

theorem extra_body_temperature_is_what_is_sent:
  "requests (call_chat_completions (example_module (replies [])) [] None None 0 None
               (Some [(''temperature'', PFloat (9/10))]))
     = [\<lparr>rq_model = ''openai/chatgpt-4o-latest'', rq_messages = [], rq_max_tokens = PNone,
         rq_temperature = PFloat (9/10), rq_extra_headers = [],
         rq_extra_body = [(''temperature'', PFloat (9/10))], rq_timeout = 60\<rparr>]
   \<and> PFloat (9/10) \<noteq> PFloat 0"
  by (simp add: call_chat_completions_def Let_def chat_request_of_def request_body_def
        dict_update_def dict_set_def dict_get_def chat_model_def example_module_def replies_def)

section \<open>Claims about usage\<close>

text \<open>
  Claim C8 says that the \<^verbatim>\<open>usage\<close> of the result is the top-level \<^verbatim>\<open>usage\<close> field when
  present, else the nested \<^verbatim>\<open>meta.usage\<close> when present, else the empty mapping, and that
  the absence of both never causes an error. As amended, the statement is about every
  provider response whose top-level \<^verbatim>\<open>usage\<close> is truthy or whose \<^verbatim>\<open>meta\<close> field is
  absent or a mapping: there the call returns, and the result's \<^verbatim>\<open>usage\<close> is the
  top-level \<^verbatim>\<open>usage\<close> field when that is present and truthy (not empty, not
  \<^verbatim>\<open>None\<close>); else the \<^verbatim>\<open>usage\<close> field of \<^verbatim>\<open>meta\<close> when \<^verbatim>\<open>meta\<close> is a mapping and that
  field is present and truthy; else the empty mapping; in particular, with both
  \<^verbatim>\<open>usage\<close> and \<^verbatim>\<open>meta\<close> absent the call returns the empty mapping. The responses
  whose top-level \<^verbatim>\<open>usage\<close> is absent or falsy while \<^verbatim>\<open>meta\<close> is present and not a
  mapping are outside the amended statement.
\<close>

theorem usage_is_first_truthy_candidate:
  assumes "chat_create w (chat_request_of w messages model max_tokens temperature hs xb) = Inr raw"
      and "outer = dict_get raw ''usage'' (PDict [])"
      and "truthy outer \<or> map_of raw ''meta'' = None \<or> map_of raw ''meta'' = Some (PDict meta)"
      and "inner = (case map_of raw ''meta'' of
                      Some (PDict d) \<Rightarrow> dict_get d ''usage'' (PDict [])
                    | other \<Rightarrow> PDict [])"
  shows "returned (call_chat_completions w messages model max_tokens temperature hs xb)
           = Inr \<lparr>res_text = chat_text (py_str w) raw,
                  res_usage = (if truthy outer then outer else if truthy inner then inner else PDict []),
                  res_latency_ms = now_end w - now_start w,
                  res_raw = raw\<rparr>"
proof -
  have u: "chat_usage raw = Inr (if truthy outer then outer else if truthy inner then inner else PDict [])"
    using assms(2,3,4)
    by (auto simp add: chat_usage_def Let_def dict_get_def py_or_def split: option.splits)
  show ?thesis
    using assms(1) by (simp add: call_chat_completions_def Let_def u)
qed

text \<open>
  Three runs: only \<^verbatim>\<open>meta.usage\<close> present; neither present; a truthy top-level
  \<^verbatim>\<open>usage\<close> beside a \<^verbatim>\<open>meta\<close> that is \<^verbatim>\<open>None\<close>.
\<close>

theorem usage_is_first_truthy_candidate_witness:
  "returned (call_chat_completions
       (example_module (replies [(''meta'', PDict [(''usage'', PDict [(''total_tokens'', PInt 7)])])]))
       [] None None 0 None None)
     = Inr \<lparr>res_text = PStr [], res_usage = PDict [(''total_tokens'', PInt 7)], res_latency_ms = 250,
            res_raw = [(''meta'', PDict [(''usage'', PDict [(''total_tokens'', PInt 7)])])]\<rparr>
   \<and> returned (call_chat_completions (example_module (replies [])) [] None None 0 None None)
     = Inr \<lparr>res_text = PStr [], res_usage = PDict [], res_latency_ms = 250, res_raw = []\<rparr>
   \<and> returned (call_chat_completions
       (example_module (replies [(''usage'', PDict [(''prompt_tokens'', PInt 3)]), (''meta'', PNone)]))
       [] None None 0 None None)
     = Inr \<lparr>res_text = PStr [], res_usage = PDict [(''prompt_tokens'', PInt 3)], res_latency_ms = 250,
            res_raw = [(''usage'', PDict [(''prompt_tokens'', PInt 3)]), (''meta'', PNone)]\<rparr>"
proof -
  let ?r1 = "[(''meta'', PDict [(''usage'', PDict [(''total_tokens'', PInt 7)])])]"
  let ?r3 = "[(''usage'', PDict [(''prompt_tokens'', PInt 3)]), (''meta'', PNone)]"
  have 1: "returned (call_chat_completions (example_module (replies ?r1)) [] None None 0 None None)
     = Inr \<lparr>res_text = PStr [], res_usage = PDict [(''total_tokens'', PInt 7)], res_latency_ms = 250,
            res_raw = ?r1\<rparr>"
    using usage_is_first_truthy_candidate[of "example_module (replies ?r1)" "[]" None None 0 None None
        ?r1 "PDict []" "[(''usage'', PDict [(''total_tokens'', PInt 7)])]"
        "PDict [(''total_tokens'', PInt 7)]"]
    by (simp add: example_module_def replies_def dict_get_def chat_text_def extract_text_def)
  have 2: "returned (call_chat_completions (example_module (replies [])) [] None None 0 None None)
     = Inr \<lparr>res_text = PStr [], res_usage = PDict [], res_latency_ms = 250, res_raw = []\<rparr>"
    using usage_is_first_truthy_candidate[of "example_module (replies [])" "[]" None None 0 None None
        "[]" "PDict []" "[]" "PDict []"]
    by (simp add: example_module_def replies_def dict_get_def chat_text_def extract_text_def)
  have 3: "returned (call_chat_completions (example_module (replies ?r3)) [] None None 0 None None)
     = Inr \<lparr>res_text = PStr [], res_usage = PDict [(''prompt_tokens'', PInt 3)], res_latency_ms = 250,
            res_raw = ?r3\<rparr>"
    using usage_is_first_truthy_candidate[of "example_module (replies ?r3)" "[]" None None 0 None None
        ?r3 "PDict [(''prompt_tokens'', PInt 3)]" "[]" "PDict []"]
    by (simp add: example_module_def replies_def dict_get_def chat_text_def extract_text_def)
  from 1 2 3 show ?thesis by blast
qed

text \<open>
  Against claim C8 as stated: for the response
  \<^verbatim>\<open>{"usage": {}, "meta": {"usage": {"total_tokens": 3}}}\<close> the top-level field is present
  and is the empty mapping, which is what the claim's reading gives; the code passes over
  it, being falsy, and returns the nested mapping.
\<close>

theorem empty_top_level_usage_is_passed_over:
  "returned (call_chat_completions
       (example_module (replies [(''usage'', PDict []),
                                 (''meta'', PDict [(''usage'', PDict [(''total_tokens'', PInt 3)])])]))
       [] None None 0 None None)
     = Inr \<lparr>res_text = PStr [], res_usage = PDict [(''total_tokens'', PInt 3)], res_latency_ms = 250,
            res_raw = [(''usage'', PDict []),
                       (''meta'', PDict [(''usage'', PDict [(''total_tokens'', PInt 3)])])]\<rparr>
   \<and> usage_as_specified [(''usage'', PDict []),
                          (''meta'', PDict [(''usage'', PDict [(''total_tokens'', PInt 3)])])]
     = PDict []"
  by (simp add: call_chat_completions_def Let_def example_module_def replies_def chat_usage_def
        dict_get_def py_or_def chat_text_def extract_text_def usage_as_specified_def)

text \<open>
  What the hypothesis of the amended claim leaves out: with no truthy top-level
  \<^verbatim>\<open>usage\<close> and a \<^verbatim>\<open>meta\<close> that is \<^verbatim>\<open>None\<close>, the line calls \<^verbatim>\<open>.get\<close> on \<^verbatim>\<open>None\<close> and the
  call raises \<^verbatim>\<open>AttributeError\<close>, outside every handler.
\<close>

lemma usage_raises_on_non_mapping_meta:
  "returned (call_chat_completions (w\<lparr>chat_create := replies [(''meta'', PNone)]\<rparr>)
              messages model max_tokens temperature hs xb)
     = Inl (Exn AttributeError (quoted ''NoneType'' @ '' object has no attribute '' @ quoted ''get''))"
  by (simp add: call_chat_completions_def Let_def replies_def chat_usage_def dict_get_def
        no_attribute_def quoted_def)

section \<open>Claims about the vectors of an embedding response\<close>

text \<open>
  The loop, taken alone: on a \<^verbatim>\<open>data\<close> list of records it yields one vector per item,
  and a record with none of the four field names yields the empty list.
\<close>

lemma collect_vectors_records:
  "list_all is_dict data \<Longrightarrow>
   \<exists>vs. collect_vectors data acc = Inr (acc @ vs) \<and> length vs = length data"
proof (induction data arbitrary: acc)
  case Nil
  then show ?case by simp
next
  case (Cons item data)
  then obtain d where d: "item = PDict d" by (cases item) simp_all
  obtain vec where vec: "item_vector item = Inr vec" by (simp add: d Let_def)
  from Cons.prems have "list_all is_dict data" by simp
  from Cons.IH[OF this, of "acc @ [vec]"] obtain vs where
    "collect_vectors data (acc @ [vec]) = Inr (acc @ [vec] @ vs)" "length vs = length data"
    by auto
  then show ?case
    by (intro exI[of _ "vec # vs"]) (simp add: vec)
qed

lemma item_vector_no_known_field:
  assumes "map_of d ''embedding'' = None" "map_of d ''vector'' = None"
      "map_of d ''embedding_vector'' = None" "map_of d ''values'' = None"
  shows "item_vector (PDict d) = Inr (PList [])"
  using assms by (simp add: Let_def dict_get_def py_or_def)

text \<open>
  Claim C6 says that for every embedding response \<^verbatim>\<open>embed_texts\<close> builds one vector per
  item of \<^verbatim>\<open>data\<close>, skipping items that are not records, by the field priority
  \<^verbatim>\<open>embedding\<close>, \<^verbatim>\<open>vector\<close>, \<^verbatim>\<open>embedding_vector\<close>, then \<^verbatim>\<open>values\<close>, a record with none of
  them giving \<^verbatim>\<open>[]\<close>. The code does otherwise twice over. In the namespace the module's
  import leaves, a call with one text never sees the response: it raises
  \<open>EmbeddingError\<close> before any request, \<^verbatim>\<open>DEFAULT_TIMEOUT\<close> being unbound. And with that
  name bound, a \<^verbatim>\<open>data\<close> list holding a record and the string \<^verbatim>\<open>"oops"\<close> is not
  filtered: \<^verbatim>\<open>item.get\<close> raises \<^verbatim>\<open>AttributeError\<close> on the string.
\<close>

theorem extraction_unreached_and_non_record_item_raises:
  "embeddings_module_init example_environ = Inr example_namespace
   \<and> embed_texts example_namespace
        (replies [(''data'', PList [PDict [(''embedding'', PList [PFloat 1])]])]) [''a''] None
     = \<lparr>sent = [],
        logged = [Log ERROR ''Unexpected embeddings error: %s''
                    [ArgExn (Exn NameError ''name 'DEFAULT_TIMEOUT' is not defined'')]],
        outcome = Inl (Exn EmbeddingError
                    ''unexpected embedding error: name 'DEFAULT_TIMEOUT' is not defined'')\<rparr>
   \<and> outcome (embed_texts (example_namespace(''DEFAULT_TIMEOUT'' \<mapsto> PInt 30))
        (replies [(''data'', PList [PDict [(''embedding'', PList [PFloat 1])], PStr ''oops''])])
        [''a'', ''b''] None)
     = Inl (Exn AttributeError (quoted ''str'' @ '' object has no attribute '' @ quoted ''get''))"
  by (simp add: example_namespace_init)
     (simp add: embed_texts_def embed_model_def load_name_def example_namespace_def
        embeddings_create_def replies_def embed_vectors_def dict_get_def py_or_def Let_def
        embedding_error_of_def embedding_error_log_def no_attribute_def quoted_def)

text \<open>
  Claim C7 says that when the number of vectors extracted differs from the number of
  input texts, \<^verbatim>\<open>embed_texts\<close> logs a warning and returns exactly the extracted vectors,
  a list of two for three texts and two \<^verbatim>\<open>data\<close> items. The code does otherwise: in the
  namespace the module's import leaves, the call with three texts raises
  \<open>EmbeddingError\<close> and sends nothing, whatever the provider would have answered.
\<close>

theorem three_texts_two_items_raises:
  "embeddings_module_init example_environ = Inr example_namespace
   \<and> embed_texts example_namespace
        (replies [(''data'', PList [PDict [(''embedding'', PList [PFloat 1])],
                                    PDict [(''embedding'', PList [PFloat 2])]])])
        [''a'', ''b'', ''c''] None
     = \<lparr>sent = [],
        logged = [Log ERROR ''Unexpected embeddings error: %s''
                    [ArgExn (Exn NameError ''name 'DEFAULT_TIMEOUT' is not defined'')]],
        outcome = Inl (Exn EmbeddingError
                    ''unexpected embedding error: name 'DEFAULT_TIMEOUT' is not defined'')\<rparr>"
  by (simp add: example_namespace_init)
     (simp add: embed_texts_def embed_model_def load_name_def example_namespace_def
        embeddings_create_def embedding_error_of_def embedding_error_log_def quoted_def)

text \<open>
  The lines after the \<^verbatim>\<open>try\<close> do what is described once \<^verbatim>\<open>DEFAULT_TIMEOUT\<close> is bound:
  one request, a warning with the two counts, the two vectors.
\<close>

lemma count_mismatch_once_timeout_is_bound:
  "embed_texts (example_namespace(''DEFAULT_TIMEOUT'' \<mapsto> PInt 30))
        (replies [(''data'', PList [PDict [(''embedding'', PList [PFloat 1])],
                                    PDict [(''vector'', PList [PFloat 2])]])])
        [''a'', ''b'', ''c''] None
     = \<lparr>sent = [\<lparr>emb_model = PStr ''text-embedding-3-small'', emb_input = [''a'', ''b'', ''c''],
                 emb_timeout = PInt 30\<rparr>],
        logged = [Log WARNING ''Returned embeddings count (%d) != input count (%d)''
                    [ArgInt 2, ArgInt 3]],
        outcome = Inr [PList [PFloat 1], PList [PFloat 2]]\<rparr>"
  by (simp add: embed_texts_def embed_model_def load_name_def example_namespace_def
        embeddings_create_def replies_def embed_vectors_def dict_get_def py_or_def Let_def)

end
